theory Spec2Isabelle
  imports Complex_Main
begin

section \<open>The ingestion script \<^verbatim>\<open>scripts/analyze_logs.py\<close>\<close>

text \<open>
  A shallow embedding of the script: its three functions, the module-level configuration,
  and the parts of Python and of the document-store client that they touch. Exceptions
  are values of a sum type, console output and the document store are threaded through
  a state record, and the module namespace that global names are looked up in is explicit.
\<close>

subsection \<open>Python values and exceptions\<close>

text \<open>
  The values a log entry or a payload can hold. A float is kept as the rational its
  literal denotes: the script never computes with one, it only passes it on.
  \<open>PModule\<close>, \<open>PClass\<close> and \<open>PFunction\<close> are the objects bound in a namespace, and
  \<open>PSentinel\<close> is a marker object such as the store's server-timestamp placeholder.
\<close>

datatype pyval =
    PNone
  | PBool bool
  | PInt int
  | PFloat rat
  | PStr string
  | PList "pyval list"
  | PDict "(string \<times> pyval) list"
  | PModule string
  | PClass string
  | PFunction string
  | PSentinel string

text \<open>
  The exceptions the script can meet. \<open>Exception m\<close> stands for any other exception
  derived from Python's \<open>Exception\<close>, with \<open>m\<close> its message; \<open>SystemExit\<close> is what
  \<open>sys.exit\<close> raises and is not derived from \<open>Exception\<close>.
\<close>

datatype exn =
    ImportError string
  | NameError string
  | AttributeError string
  | Exception string
  | SystemExit int

text \<open>Decimal text of an integer, as \<open>str\<close> and an f-string give it.\<close>

fun str_nat :: "nat \<Rightarrow> string" where
  "str_nat n =
     (if n < 10 then [char_of (48 + n)]
      else str_nat (n div 10) @ [char_of (48 + n mod 10)])"

declare str_nat.simps [simp del]

definition str_int :: "int \<Rightarrow> string" where
  "str_int i = (if i < 0 then ''-'' @ str_nat (nat (- i)) else str_nat (nat i))"

definition is_ImportError :: "exn \<Rightarrow> bool" where
  "is_ImportError e = (case e of ImportError _ \<Rightarrow> True | _ \<Rightarrow> False)"

definition is_Exception :: "exn \<Rightarrow> bool" where
  "is_Exception e = (case e of SystemExit _ \<Rightarrow> False | _ \<Rightarrow> True)"

definition exn_str :: "exn \<Rightarrow> string" where
  "exn_str e =
     (case e of
        ImportError m \<Rightarrow> m
      | NameError n \<Rightarrow> ''name '' @ [CHR 0x27] @ n @ [CHR 0x27] @ '' is not defined''
      | AttributeError m \<Rightarrow> m
      | Exception m \<Rightarrow> m
      | SystemExit c \<Rightarrow> str_int c)"

type_synonym entry = "string \<rightharpoonup> pyval"
type_synonym payload = "string \<rightharpoonup> pyval"
type_synonym namespace = "string \<rightharpoonup> pyval"

subsection \<open>The interpreter, the clock and the world\<close>

text \<open>
  One reading of \<open>datetime.now()\<close>: the text of its \<open>timestamp()\<close> (a float, as
  an f-string renders it) and its \<open>isoformat()\<close>.
\<close>

record instant =
  ts :: string
  iso :: string

text \<open>
  What the script takes from Python itself: the clock, as the reading returned by the
  \<open>k\<close>-th call of \<open>datetime.now()\<close>, and \<open>str\<close> on values that are not strings.
\<close>

record python =
  now :: "nat \<Rightarrow> instant"
  str_of :: "pyval \<Rightarrow> string"

definition format_value :: "python \<Rightarrow> pyval \<Rightarrow> string" where
  "format_value py v = (case v of PStr s \<Rightarrow> s | _ \<Rightarrow> str_of py v)"

text \<open>
  The state the script acts on: the lines printed so far, the documents of the store by
  path, and the number of clock readings taken.
\<close>

record world =
  stdout :: "string list"
  store :: "string \<rightharpoonup> payload"
  ticks :: nat

definition py_print :: "string \<Rightarrow> world \<Rightarrow> world" where
  "py_print s w = w\<lparr>stdout := stdout w @ [s]\<rparr>"

definition datetime_now :: "python \<Rightarrow> world \<Rightarrow> instant \<times> world" where
  "datetime_now py w = (now py (ticks w), w\<lparr>ticks := Suc (ticks w)\<rparr>)"

subsection \<open>The document-store client\<close>

text \<open>
  Modelled from the spec: the client library (\<open>google.cloud.firestore\<close>) is not part of
  the repository. A client addresses a document by collection path and document id and
  upserts it: the write creates the document if absent and fully overwrites it if
  present. Either call may raise; which exception, if any, is the client's own business
  and a parameter here.
\<close>

record client =
  document_raises :: "string \<Rightarrow> pyval \<Rightarrow> exn option"
  set_raises :: "string \<Rightarrow> payload \<Rightarrow> exn option"

definition document_path :: "python \<Rightarrow> string \<Rightarrow> pyval \<Rightarrow> string" where
  "document_path py coll doc_id = coll @ ''/'' @ format_value py doc_id"

definition upsert :: "string \<Rightarrow> payload \<Rightarrow> world \<Rightarrow> world" where
  "upsert path doc w = w\<lparr>store := (store w)(path \<mapsto> doc)\<rparr>"

text \<open>
  Modelled from the spec: the attribute \<open>SERVER_TIMESTAMP\<close> of the client library's
  module is the sentinel the store replaces by its own clock reading; any other object
  has no such attribute.
\<close>

definition SERVER_TIMESTAMP :: "pyval \<Rightarrow> exn + pyval" where
  "SERVER_TIMESTAMP m =
     (if m = PModule ''google.cloud.firestore'' then Inr (PSentinel ''SERVER_TIMESTAMP'')
      else Inl (AttributeError ''SERVER_TIMESTAMP''))"

text \<open>
  What the platform answers when the client is constructed: whether the import of the
  library raises, and what \<open>firestore.Client()\<close> returns or raises.
\<close>

record platform =
  import_raises :: "exn option"
  Client :: "exn + client"

subsection \<open>Module-level configuration (lines 11 to 16)\<close>

definition getenv :: "(string \<rightharpoonup> string) \<Rightarrow> string \<Rightarrow> string \<Rightarrow> string" where
  "getenv env k d = (case env k of None \<Rightarrow> d | Some v \<Rightarrow> v)"

definition APP_ID :: "(string \<rightharpoonup> string) \<Rightarrow> string" where
  "APP_ID env = getenv env ''__app_id'' ''default-app-id''"

definition USER_ID :: "(string \<rightharpoonup> string) \<Rightarrow> string" where
  "USER_ID env = getenv env ''USER_ID'' ''jasonbender-c3x''"

definition COLLECTION_PATH :: "(string \<rightharpoonup> string) \<Rightarrow> string" where
  "COLLECTION_PATH env = ''artifacts/'' @ APP_ID env @ ''/public/data/knowledge_buckets''"

text \<open>
  The names bound at module scope once the module body has run: the three imports of
  lines 6 to 8, the three assignments of lines 11 to 16 and the three function
  definitions. The import of line 24 is inside \<open>get_firestore_client\<close>: it binds a local
  name of that function and adds nothing here.
\<close>

definition module_globals :: "(string \<rightharpoonup> string) \<Rightarrow> namespace" where
  "module_globals env =
     [''os'' \<mapsto> PModule ''os'',
      ''sys'' \<mapsto> PModule ''sys'',
      ''datetime'' \<mapsto> PClass ''datetime.datetime'',
      ''APP_ID'' \<mapsto> PStr (APP_ID env),
      ''USER_ID'' \<mapsto> PStr (USER_ID env),
      ''COLLECTION_PATH'' \<mapsto> PStr (COLLECTION_PATH env),
      ''get_firestore_client'' \<mapsto> PFunction ''get_firestore_client'',
      ''ingest_log_entry'' \<mapsto> PFunction ''ingest_log_entry'',
      ''main'' \<mapsto> PFunction ''main'']"

text \<open>Loading a global name: a name the namespace does not bind raises \<open>NameError\<close>.\<close>

definition load_global :: "namespace \<Rightarrow> string \<Rightarrow> exn + pyval" where
  "load_global g n = (case g n of None \<Rightarrow> Inl (NameError n) | Some v \<Rightarrow> Inr v)"

subsection \<open>\<open>get_firestore_client\<close> (lines 18 to 32)\<close>

definition get_firestore_client :: "platform \<Rightarrow> world \<Rightarrow> (exn + client) \<times> world" where
  "get_firestore_client lib w =
     (case (case import_raises lib of Some e \<Rightarrow> Inl e | None \<Rightarrow> Client lib) of
        Inr db \<Rightarrow> (Inr db, w)
      | Inl e \<Rightarrow>
          if is_ImportError e then
            (Inl (SystemExit 1),
             py_print ''Run: pip install google-cloud-firestore''
               (py_print ''ERROR: google-cloud-firestore not installed'' w))
          else if is_Exception e then
            (Inl (SystemExit 1),
             py_print (''ERROR: Failed to initialize Firestore client: '' @ exn_str e) w)
          else (Inl e, w))"

subsection \<open>\<open>ingest_log_entry\<close> (lines 34 to 68)\<close>

text \<open>
  Line 42. The default of \<open>dict.get\<close> is an argument, so the clock is read whether or not
  the entry has a \<open>message_id\<close>; the reading is the one the world's tick count selects.
\<close>

definition message_id :: "python \<Rightarrow> world \<Rightarrow> entry \<Rightarrow> pyval" where
  "message_id py w entry_data =
     (case entry_data ''message_id'' of
        Some v \<Rightarrow> v
      | None \<Rightarrow> PStr (''msg_'' @ ts (fst (datetime_now py w))))"

definition check_mark :: string where
  "check_mark = [CHR 0xE2, CHR 0x9C, CHR 0x93]"

definition ballot_x :: string where
  "ballot_x = [CHR 0xE2, CHR 0x9C, CHR 0x97]"

text \<open>
  The function, statement by statement. \<open>g\<close> is the namespace its global names are
  looked up in; the only lookup that can fail is that of \<open>firestore\<close> on line 55, the
  last value of the dictionary display, evaluated after the six before it.
\<close>

definition ingest_log_entry ::
  "namespace \<Rightarrow> python \<Rightarrow> (string \<rightharpoonup> string) \<Rightarrow> client \<Rightarrow> entry \<Rightarrow> world \<Rightarrow> (exn + bool) \<times> world"
where
  "ingest_log_entry g py env db entry_data w =
     (let mid = message_id py w entry_data;
          w1 = snd (datetime_now py w)
      in case document_raises db (COLLECTION_PATH env) mid of
           Some e \<Rightarrow> (Inl e, w1)
         | None \<Rightarrow>
             (let doc_ref = document_path py (COLLECTION_PATH env) mid;
                  content = (case entry_data ''content'' of Some v \<Rightarrow> v | None \<Rightarrow> PStr '''');
                  metadata = (case entry_data ''metadata'' of Some v \<Rightarrow> v | None \<Rightarrow> PDict []);
                  t = fst (datetime_now py w1);
                  w2 = snd (datetime_now py w1)
              in case load_global g ''firestore'' of
                   Inl e \<Rightarrow> (Inl e, w2)
                 | Inr firestore \<Rightarrow>
                     (case SERVER_TIMESTAMP firestore of
                        Inl e \<Rightarrow> (Inl e, w2)
                      | Inr indexed_at \<Rightarrow>
                          (let payload0 =
                                 [''user_id'' \<mapsto> PStr (USER_ID env),
                                  ''app_id'' \<mapsto> PStr (APP_ID env),
                                  ''message_id'' \<mapsto> mid,
                                  ''content'' \<mapsto> content,
                                  ''metadata'' \<mapsto> metadata,
                                  ''timestamp'' \<mapsto> PStr (iso t),
                                  ''indexed_at'' \<mapsto> indexed_at];
                               payload =
                                 (case entry_data ''vector'' of
                                    Some v \<Rightarrow> payload0(''vector'' \<mapsto> v)
                                  | None \<Rightarrow> payload0)
                           in case set_raises db doc_ref payload of
                                None \<Rightarrow>
                                  (Inr True,
                                   py_print
                                     (check_mark @ '' Ingested: '' @ format_value py mid
                                        @ '' to '' @ COLLECTION_PATH env)
                                     (upsert doc_ref payload w2))
                              | Some e \<Rightarrow>
                                  if is_Exception e then
                                    (Inr False,
                                     py_print
                                       (ballot_x @ '' Failed to ingest '' @ format_value py mid
                                          @ '': '' @ exn_str e)
                                       w2)
                                  else (Inl e, w2)))))"

subsection \<open>\<open>main\<close> (lines 70 to 102) and the script's exit status\<close>

definition example_entries :: "entry list" where
  "example_entries =
     [[''message_id'' \<mapsto> PStr ''example_001'',
       ''content'' \<mapsto> PStr ''Sample log entry for testing'',
       ''metadata'' \<mapsto> PDict [(''source'', PStr ''test''), (''type'', PStr ''example'')]]]"

definition rule60 :: string where
  "rule60 = replicate 60 CHR ''=''"

definition banner :: "(string \<rightharpoonup> string) \<Rightarrow> string list" where
  "banner env =
     [rule60,
      ''RAG Stack Ingestion Script (V1.1)'',
      rule60,
      ''App ID: '' @ APP_ID env,
      ''User ID: '' @ USER_ID env,
      ''Collection Path: '' @ COLLECTION_PATH env,
      rule60]"

text \<open>
  The loop of lines 95 to 98: an exception of a call leaves the loop, and every return
  of \<open>True\<close> adds one to the count.
\<close>

fun ingest_loop ::
  "namespace \<Rightarrow> python \<Rightarrow> (string \<rightharpoonup> string) \<Rightarrow> client \<Rightarrow> entry list \<Rightarrow> nat \<Rightarrow> world \<Rightarrow> (exn + nat) \<times> world"
where
  "ingest_loop g py env db [] success_count w = (Inr success_count, w)"
| "ingest_loop g py env db (e # es) success_count w =
     (case ingest_log_entry g py env db e w of
        (Inl x, w') \<Rightarrow> (Inl x, w')
      | (Inr ok, w') \<Rightarrow>
          ingest_loop g py env db es (if ok then Suc success_count else success_count) w')"

definition main :: "python \<Rightarrow> platform \<Rightarrow> (string \<rightharpoonup> string) \<Rightarrow> world \<Rightarrow> (exn + unit) \<times> world" where
  "main py lib env w =
     (case get_firestore_client lib (fold py_print (banner env) w) of
        (Inl x, w1) \<Rightarrow> (Inl x, w1)
      | (Inr db, w1) \<Rightarrow>
          (case ingest_loop (module_globals env) py env db example_entries 0 w1 of
             (Inl x, w2) \<Rightarrow> (Inl x, w2)
           | (Inr success_count, w2) \<Rightarrow>
               (Inr (),
                fold py_print
                  [rule60,
                   ''Ingestion complete: '' @ str_nat success_count @ ''/''
                     @ str_nat (length example_entries) @ '' successful'',
                   rule60]
                  w2)))"

text \<open>
  Lines 104 and 105, with the interpreter's exit status: 0 when \<open>main\<close> returns, the code
  of a \<open>SystemExit\<close>, and 1 for any other exception that nothing caught (its traceback
  goes to standard error, which the world does not record).
\<close>

definition run_script :: "python \<Rightarrow> platform \<Rightarrow> (string \<rightharpoonup> string) \<Rightarrow> world \<Rightarrow> int \<times> world" where
  "run_script py lib env w =
     (case main py lib env w of
        (Inr _, w') \<Rightarrow> (0, w')
      | (Inl (SystemExit c), w') \<Rightarrow> (c, w')
      | (Inl _, w') \<Rightarrow> (1, w'))"

subsection \<open>Concrete inputs\<close>

text \<open>
  A clock that always reads the same instant, a client that accepts every call, a client
  whose write always raises, a client that refuses to address the document id \<open>a/b\<close>
  (an id with a slash is not one path element), the world before the script starts, and the module
  namespace with the library's module bound to \<open>firestore\<close> in addition (which the
  script itself never does).
\<close>

definition test_python :: python where
  "test_python =
     \<lparr>now = (\<lambda>k. \<lparr>ts = ''1762300800.5'', iso = ''2025-11-05T00:00:00.500000''\<rparr>),
      str_of = (\<lambda>v. ''<object>'')\<rparr>"

definition accepting_client :: client where
  "accepting_client = \<lparr>document_raises = (\<lambda>_ _. None), set_raises = (\<lambda>_ _. None)\<rparr>"

definition rejecting_client :: client where
  "rejecting_client =
     \<lparr>document_raises = (\<lambda>_ _. None),
      set_raises = (\<lambda>_ _. Some (Exception ''quota exceeded''))\<rparr>"


definition empty_world :: world where
  "empty_world = \<lparr>stdout = [], store = Map.empty, ticks = 0\<rparr>"

definition firestore_bound :: namespace where
  "firestore_bound =
     (module_globals Map.empty)(''firestore'' \<mapsto> PModule ''google.cloud.firestore'')"

section \<open>Properties\<close>

subsection \<open>Printing and the banner\<close>

lemma stdout_fold_print: "stdout (fold py_print xs w) = stdout w @ xs"
  by (induction xs arbitrary: w) (simp_all add: py_print_def)

lemma store_fold_print: "store (fold py_print xs w) = store w"
  by (induction xs arbitrary: w) (simp_all add: py_print_def)

lemma ticks_fold_print: "ticks (fold py_print xs w) = ticks w"
  by (induction xs arbitrary: w) (simp_all add: py_print_def)

lemma rule60_text:
  "rule60 = ''============================================================''"
  unfolding rule60_def by code_simp

subsection \<open>The unbound name\<close>

text \<open>
  No statement at module scope binds \<open>firestore\<close>, so loading it raises \<open>NameError\<close>,
  whatever the environment.
\<close>

lemma firestore_unbound:
  "load_global (module_globals env) ''firestore'' = Inl (NameError ''firestore'')"
  by (simp add: load_global_def module_globals_def)

text \<open>
  Hence, under the module's own namespace, \<open>ingest_log_entry\<close> has two outcomes only: the
  exception of the addressing call of line 45, after one clock reading, or the
  \<open>NameError\<close> of line 55, after two.
\<close>

lemma ingest_log_entry_module_scope:
  "ingest_log_entry (module_globals env) py env db entry_data w =
     (case document_raises db (COLLECTION_PATH env) (message_id py w entry_data) of
        Some e \<Rightarrow> (Inl e, w\<lparr>ticks := Suc (ticks w)\<rparr>)
      | None \<Rightarrow> (Inl (NameError ''firestore''), w\<lparr>ticks := Suc (Suc (ticks w))\<rparr>))"
  by (simp add: ingest_log_entry_def Let_def firestore_unbound datetime_now_def
        split: option.splits)

lemma get_firestore_client_constructed:
  "get_firestore_client \<lparr>import_raises = None, Client = Inr db\<rparr> w = (Inr db, w)"
  by (simp add: get_firestore_client_def)

lemma main_client_constructed:
  "main py \<lparr>import_raises = None, Client = Inr db\<rparr> env w =
     (let w1 = fold py_print (banner env) w
      in case document_raises db (COLLECTION_PATH env) (message_id py w1 (hd example_entries)) of
           Some x \<Rightarrow> (Inl x, w1\<lparr>ticks := Suc (ticks w1)\<rparr>)
         | None \<Rightarrow> (Inl (NameError ''firestore''), w1\<lparr>ticks := Suc (Suc (ticks w1))\<rparr>))"
  by (simp add: main_def get_firestore_client_constructed example_entries_def
        ingest_log_entry_module_scope Let_def split: option.splits)

text \<open>The entry is read at four keys only (and at \<open>message_id\<close> through line 42).\<close>

lemma ingest_log_entry_reads:
  "message_id py w e1 = message_id py w e2 \<Longrightarrow> e1 ''content'' = e2 ''content'' \<Longrightarrow>
   e1 ''metadata'' = e2 ''metadata'' \<Longrightarrow> e1 ''vector'' = e2 ''vector'' \<Longrightarrow>
   ingest_log_entry g py env db e1 w = ingest_log_entry g py env db e2 w"
  unfolding ingest_log_entry_def by (simp only:)

subsection \<open>Failure to construct the client\<close>

text \<open>
  When the import raises \<open>ImportError\<close>, the script prints the banner and the two lines
  of the remediation hint and exits with status 1; when the construction raises another
  exception, it prints the banner and the error and exits with status 1. In both cases
  \<open>ingest_log_entry\<close> is not called and the store is as it was.
\<close>

lemma client_library_missing:
  "import_raises lib = Some (ImportError m) \<Longrightarrow>
   run_script py lib env w =
     (1, fold py_print
           (banner env @ [''ERROR: google-cloud-firestore not installed'',
                          ''Run: pip install google-cloud-firestore'']) w)"
  by (simp add: run_script_def main_def get_firestore_client_def is_ImportError_def)

lemma client_construction_fails:
  "import_raises lib = None \<Longrightarrow> Client lib = Inl e \<Longrightarrow> is_Exception e \<Longrightarrow>
   \<not> is_ImportError e \<Longrightarrow>
   run_script py lib env w =
     (1, fold py_print
           (banner env @ [''ERROR: Failed to initialize Firestore client: '' @ exn_str e]) w)"
  by (simp add: run_script_def main_def get_firestore_client_def)

subsection \<open>The function with the name bound\<close>

text \<open>
  Lines 56 to 68 under a namespace that does bind \<open>firestore\<close> to the library's module:
  the write succeeds and the document, with its vector, is stored under the collection
  path and the message id; or the write raises, the exception is caught and the failure
  line is printed.
\<close>

lemma bound_name_write_succeeds:
  "ingest_log_entry firestore_bound test_python Map.empty accepting_client
     [''message_id'' \<mapsto> PStr ''m1'', ''vector'' \<mapsto> PList [PFloat 0.1, PFloat 0.2]] empty_world
   = (Inr True,
      \<lparr>stdout = [check_mark @ '' Ingested: m1 to artifacts/default-app-id/public/data/knowledge_buckets''],
       store =
         [''artifacts/default-app-id/public/data/knowledge_buckets/m1'' \<mapsto>
            [''user_id'' \<mapsto> PStr ''jasonbender-c3x'',
             ''app_id'' \<mapsto> PStr ''default-app-id'',
             ''message_id'' \<mapsto> PStr ''m1'',
             ''content'' \<mapsto> PStr [],
             ''metadata'' \<mapsto> PDict [],
             ''timestamp'' \<mapsto> PStr ''2025-11-05T00:00:00.500000'',
             ''indexed_at'' \<mapsto> PSentinel ''SERVER_TIMESTAMP'',
             ''vector'' \<mapsto> PList [PFloat 0.1, PFloat 0.2]]],
       ticks = 2\<rparr>)"
  by (simp add: ingest_log_entry_def Let_def load_global_def firestore_bound_def
        SERVER_TIMESTAMP_def accepting_client_def empty_world_def test_python_def
        message_id_def datetime_now_def document_path_def format_value_def upsert_def
        py_print_def APP_ID_def USER_ID_def COLLECTION_PATH_def getenv_def)

lemma bound_name_write_fails:
  "ingest_log_entry firestore_bound test_python Map.empty rejecting_client
     [''message_id'' \<mapsto> PStr ''bad_id''] empty_world
   = (Inr False,
      \<lparr>stdout = [ballot_x @ '' Failed to ingest bad_id: quota exceeded''],
       store = Map.empty, ticks = 2\<rparr>)"
  by (simp add: ingest_log_entry_def Let_def load_global_def firestore_bound_def
        SERVER_TIMESTAMP_def rejecting_client_def empty_world_def test_python_def
        message_id_def datetime_now_def document_path_def format_value_def
        py_print_def is_Exception_def exn_str_def)

subsection \<open>The claims\<close>

text \<open>
  C1. The payload of an entry is never built. For the entry with \<open>message_id\<close> \<open>m1\<close> and
  vector \<open>[0.1, 0.2]\<close>, under the module's namespace and with a client that accepts every
  call, \<open>ingest_log_entry\<close> raises \<open>NameError\<close> for \<open>firestore\<close> after its two clock
  readings; nothing is printed and the store stays empty, so no document with the seven
  fields and the vector exists.
\<close>

theorem no_payload_is_built:
  "ingest_log_entry (module_globals Map.empty) test_python Map.empty accepting_client
     [''message_id'' \<mapsto> PStr ''m1'', ''vector'' \<mapsto> PList [PFloat 0.1, PFloat 0.2]] empty_world
   = (Inl (NameError ''firestore''), \<lparr>stdout = [], store = Map.empty, ticks = 2\<rparr>)"
  by (simp add: ingest_log_entry_module_scope accepting_client_def empty_world_def)




text \<open>
  C3. A failing write is never caught, because the write is never reached. With a client
  whose write always raises, ingesting the entry \<open>bad_id\<close> under the module's namespace
  raises \<open>NameError\<close> instead of returning \<open>False\<close>, and prints no line; the loop over a
  batch that starts with this entry ends in the same exception without reaching the
  next entry.
\<close>

theorem write_failure_is_never_caught:
  "ingest_log_entry (module_globals Map.empty) test_python Map.empty rejecting_client
       [''message_id'' \<mapsto> PStr ''bad_id''] empty_world
     = (Inl (NameError ''firestore''), \<lparr>stdout = [], store = Map.empty, ticks = 2\<rparr>)
   \<and> ingest_loop (module_globals Map.empty) test_python Map.empty rejecting_client
       [[''message_id'' \<mapsto> PStr ''bad_id''], [''message_id'' \<mapsto> PStr ''next_id'']] 0 empty_world
     = (Inl (NameError ''firestore''), \<lparr>stdout = [], store = Map.empty, ticks = 2\<rparr>)"
  by (simp add: ingest_log_entry_module_scope rejecting_client_def empty_world_def)

text \<open>
  C4. With the client constructed, the script does not exit with status 0: with an
  accepting client and with a client whose write raises alike, the run ends in the
  uncaught \<open>NameError\<close> and the exit status is 1.
\<close>

theorem exit_status_with_client_constructed:
  "fst (run_script test_python \<lparr>import_raises = None, Client = Inr accepting_client\<rparr>
          Map.empty empty_world) = 1
   \<and> fst (run_script test_python \<lparr>import_raises = None, Client = Inr rejecting_client\<rparr>
          Map.empty empty_world) = 1"
  by (simp add: run_script_def main_client_constructed Let_def accepting_client_def
        rejecting_client_def)

text \<open>
  C5. For any application id resolved from the environment, the collection path is
  \<open>artifacts/\<close>, the id, \<open>/public/data/knowledge_buckets\<close>: the id is the value of
  \<open>__app_id\<close> when the environment sets it and \<open>default-app-id\<close> when it does not.
\<close>

theorem collection_path_of_app_id:
  "COLLECTION_PATH env = ''artifacts/'' @ APP_ID env @ ''/public/data/knowledge_buckets''
   \<and> APP_ID (env(''__app_id'' \<mapsto> A)) = A
   \<and> COLLECTION_PATH (env(''__app_id'' \<mapsto> A)) = ''artifacts/'' @ A @ ''/public/data/knowledge_buckets''
   \<and> COLLECTION_PATH (env(''__app_id'' := None))
       = ''artifacts/default-app-id/public/data/knowledge_buckets''"
  by (simp add: COLLECTION_PATH_def APP_ID_def getenv_def)

text \<open>
  C6. Ingesting two entries with the same \<open>message_id\<close> one after the other, under the
  module's namespace and with an accepting client, raises \<open>NameError\<close> both times and
  leaves the store empty: no document exists at the path afterwards.
\<close>

theorem same_message_id_twice_stores_nothing:
  "fst (ingest_log_entry (module_globals Map.empty) test_python Map.empty accepting_client
          [''message_id'' \<mapsto> PStr ''dup'', ''content'' \<mapsto> PStr ''first''] empty_world)
     = Inl (NameError ''firestore'')
   \<and> ingest_log_entry (module_globals Map.empty) test_python Map.empty accepting_client
       [''message_id'' \<mapsto> PStr ''dup'', ''content'' \<mapsto> PStr ''second'']
       (snd (ingest_log_entry (module_globals Map.empty) test_python Map.empty accepting_client
               [''message_id'' \<mapsto> PStr ''dup'', ''content'' \<mapsto> PStr ''first''] empty_world))
     = (Inl (NameError ''firestore''), \<lparr>stdout = [], store = Map.empty, ticks = 4\<rparr>)"
  by (simp add: ingest_log_entry_module_scope accepting_client_def empty_world_def)

text \<open>
  C7. For an entry without a \<open>message_id\<close>, line 42 synthesizes the identifier \<open>msg_\<close>
  followed by the text of the clock's timestamp, a non-empty string, and
  \<open>ingest_log_entry\<close> treats the entry exactly as it treats the same entry with that
  identifier as its \<open>message_id\<close>.
\<close>

theorem synthesized_message_id_nonempty:
  "entry_data ''message_id'' = None \<Longrightarrow>
     (\<exists>s. message_id py w entry_data = PStr s \<and> s \<noteq> [] \<and> s = ''msg_'' @ ts (now py (ticks w)))
     \<and> ingest_log_entry g py env db entry_data w
         = ingest_log_entry g py env db
             (entry_data(''message_id'' \<mapsto> message_id py w entry_data)) w"
proof -
  assume absent: "entry_data ''message_id'' = None"
  let ?s = "''msg_'' @ ts (now py (ticks w))"
  have mid: "message_id py w entry_data = PStr ?s"
    using absent by (simp add: message_id_def datetime_now_def)
  have "ingest_log_entry g py env db entry_data w
          = ingest_log_entry g py env db (entry_data(''message_id'' \<mapsto> PStr ?s)) w"
    by (rule ingest_log_entry_reads) (simp_all add: message_id_def datetime_now_def absent)
  with mid show ?thesis by simp
qed

theorem synthesized_message_id_nonempty_witness:
  "[''content'' \<mapsto> PStr ''no id''] ''message_id'' = None
   \<and> message_id test_python empty_world [''content'' \<mapsto> PStr ''no id'']
       = PStr ''msg_1762300800.5''"
  using synthesized_message_id_nonempty
          [of "[''content'' \<mapsto> PStr ''no id'']" test_python empty_world]
  by (simp add: test_python_def empty_world_def)

text \<open>
  C8. With both environment variables unset and a client that accepts every call, the
  script prints the seven banner lines and nothing else, stores nothing and exits with
  status 1: no document is stored for \<open>example_001\<close> and no line names it.
\<close>

theorem example_run_stores_nothing:
  "run_script test_python \<lparr>import_raises = None, Client = Inr accepting_client\<rparr>
     Map.empty empty_world
   = (1, \<lparr>stdout =
            [''============================================================'',
             ''RAG Stack Ingestion Script (V1.1)'',
             ''============================================================'',
             ''App ID: default-app-id'',
             ''User ID: jasonbender-c3x'',
             ''Collection Path: artifacts/default-app-id/public/data/knowledge_buckets'',
             ''============================================================''],
          store = Map.empty, ticks = 2\<rparr>)"
  by (simp add: run_script_def main_client_constructed Let_def accepting_client_def
        empty_world_def banner_def rule60_text APP_ID_def USER_ID_def COLLECTION_PATH_def
        getenv_def py_print_def)

text \<open>
  C9. Whenever the client is constructed, \<open>main\<close> does not return: it prints the banner
  and nothing after it, neither a line for the entry nor the summary line.
\<close>

theorem main_prints_banner_only:
  "fst (main py \<lparr>import_raises = None, Client = Inr db\<rparr> env w) \<noteq> Inr ()
   \<and> stdout (snd (main py \<lparr>import_raises = None, Client = Inr db\<rparr> env w))
       = stdout w @ banner env"
  by (simp add: main_client_constructed Let_def stdout_fold_print split: option.splits)



end
